theory Spec2Isabelle
  imports Main "HOL-Library.Word"
begin

section \<open>Python values, exceptions and the string primitives used by modem.py\<close>

text \<open>
  The program is Python 3. A \<open>bytes\<close> object is a list of 8-bit words. A \<open>str\<close> is a
  \<open>string\<close>: the development covers text whose characters lie below U+0100, where
  the only decimal digits are \<open>0\<close> to \<open>9\<close>. Python integers are unbounded (\<open>int\<close>).

  A computation either returns a value or raises. The third outcome, \<open>Unmodelled\<close>,
  marks the one place where the program would go on with text this development does not
  cover (a well-formed UTF-8 sequence for a character from U+0100 on); no theorem draws
  a conclusion from it.
\<close>

type_synonym byte = "8 word"
type_synonym bytes = "byte list"

datatype exn =
    UnboundLocalError | NameError | AttributeError | UnicodeDecodeError
  | ValueError | StructError | IndexError | OSError

datatype 'a result = Return 'a | Raise exn | Unmodelled

fun bind :: "'a result \<Rightarrow> ('a \<Rightarrow> 'b result) \<Rightarrow> 'b result" where
  "bind (Return x) f = f x"
| "bind (Raise e) f = Raise e"
| "bind Unmodelled f = Unmodelled"

fun mapM :: "('a \<Rightarrow> 'b result) \<Rightarrow> 'a list \<Rightarrow> 'b list result" where
  "mapM f [] = Return []"
| "mapM f (x # xs) = bind (f x) (\<lambda>y. bind (mapM f xs) (\<lambda>ys. Return (y # ys)))"

subsection \<open>Splitting\<close>

text \<open>\<open>s.split(sep, 1)\<close> for a one-character separator: at most one cut, at the first
  occurrence.\<close>

definition split_once :: "char \<Rightarrow> string \<Rightarrow> string list" where
  "split_once sep s =
     (if sep \<in> set s
      then [takeWhile (\<lambda>c. c \<noteq> sep) s, tl (dropWhile (\<lambda>c. c \<noteq> sep) s)]
      else [s])"

text \<open>\<open>s.split(sep)\<close> for a one-character separator: every occurrence cuts, empty
  pieces are kept, and the result is never empty. The second argument is the piece being
  collected.\<close>

fun split_from :: "char \<Rightarrow> string \<Rightarrow> string \<Rightarrow> string list" where
  "split_from sep cur [] = [cur]"
| "split_from sep cur (c # cs) =
     (if c = sep then cur # split_from sep [] cs else split_from sep (cur @ [c]) cs)"

definition split_on :: "char \<Rightarrow> string \<Rightarrow> string list" where
  "split_on sep s = split_from sep [] s"

text \<open>\<open>str.isspace\<close> below U+0100, the separator set of \<open>s.split()\<close>.\<close>

definition isspace :: "char \<Rightarrow> bool" where
  "isspace c \<longleftrightarrow> c \<in> set [CHR 0x09, CHR 0x0A, CHR 0x0B, CHR 0x0C, CHR 0x0D,
                          CHR 0x1C, CHR 0x1D, CHR 0x1E, CHR 0x1F, CHR 0x20,
                          CHR 0x85, CHR 0xA0]"

text \<open>\<open>s.split()\<close>: the maximal runs of non-whitespace characters, in order. The first
  argument is the run being collected.\<close>

fun split_ws_from :: "string \<Rightarrow> string \<Rightarrow> string list" where
  "split_ws_from cur [] = (if cur = [] then [] else [cur])"
| "split_ws_from cur (c # cs) =
     (if isspace c then (if cur = [] then split_ws_from [] cs else cur # split_ws_from [] cs)
      else split_ws_from (cur @ [c]) cs)"

definition split_ws :: "string \<Rightarrow> string list" where
  "split_ws s = split_ws_from [] s"

subsection \<open>\<open>int(s, base)\<close>\<close>

text \<open>
  The literal accepted by \<open>int\<close> on a \<open>str\<close>: optional whitespace on both sides, an
  optional sign, for base 16 an optional \<open>0x\<close> or \<open>0X\<close> (after which one underscore may
  follow), then digits below the base with single underscores between them. Anything else
  raises \<open>ValueError\<close>. The whitespace skipped here is narrower than \<open>isspace\<close>: the
  separators U+001C to U+001F are not skipped. The program applies base 10 only to
  the octets of a dotted address, far below the interpreter's limit on decimal digits.
\<close>

definition int_space :: "char \<Rightarrow> bool" where
  "int_space c \<longleftrightarrow> c \<in> set [CHR 0x09, CHR 0x0A, CHR 0x0B, CHR 0x0C, CHR 0x0D, CHR 0x20,
                            CHR 0x85, CHR 0xA0]"

definition digit_value :: "char \<Rightarrow> int" where
  "digit_value c =
     (let n = (of_char c :: int)
      in if 48 \<le> n \<and> n \<le> 57 then n - 48
         else if 97 \<le> n \<and> n \<le> 122 then n - 87
         else if 65 \<le> n \<and> n \<le> 90 then n - 55
         else 37)"

text \<open>The digit loop: the flag says that the previous character was an underscore.\<close>

fun scan_digits :: "int \<Rightarrow> bool \<Rightarrow> int \<Rightarrow> string \<Rightarrow> int option" where
  "scan_digits b us acc [] = (if us then None else Some acc)"
| "scan_digits b us acc (c # cs) =
     (if c = CHR ''_'' then (if us then None else scan_digits b True acc cs)
      else if digit_value c < b then scan_digits b False (acc * b + digit_value c) cs
      else None)"

definition int_literal :: "int \<Rightarrow> string \<Rightarrow> int option" where
  "int_literal b s =
     (case s of [] \<Rightarrow> None
      | c # cs \<Rightarrow> if c = CHR ''_'' then None else scan_digits b False 0 s)"

definition strip_int_space :: "string \<Rightarrow> string" where
  "strip_int_space s = rev (dropWhile int_space (rev (dropWhile int_space s)))"

definition skip_sign :: "string \<Rightarrow> bool \<times> string" where
  "skip_sign s =
     (case s of [] \<Rightarrow> (False, s)
      | c # r \<Rightarrow> if c = CHR ''-'' then (True, r)
                 else if c = CHR ''+'' then (False, r) else (False, s))"

definition skip_prefix :: "int \<Rightarrow> string \<Rightarrow> string" where
  "skip_prefix b s =
     (case s of
        z # x # r \<Rightarrow>
          if b = 16 \<and> z = CHR ''0'' \<and> (x = CHR ''x'' \<or> x = CHR ''X'')
          then (case r of [] \<Rightarrow> r | y # r' \<Rightarrow> if y = CHR ''_'' then r' else r)
          else s
      | _ \<Rightarrow> s)"

definition py_int :: "string \<Rightarrow> int \<Rightarrow> int result" where
  "py_int s b =
     (case skip_sign (strip_int_space s) of
        (neg, u) \<Rightarrow>
          (case int_literal b (skip_prefix b u) of
             None \<Rightarrow> Raise ValueError
           | Some n \<Rightarrow> Return (if neg then - n else n)))"

subsection \<open>\<open>struct.pack\<close>, \<open>socket.inet_ntoa\<close>, \<open>bin\<close>\<close>

text \<open>\<open>struct.pack("<L", n)\<close>: four bytes, least significant first; \<open>struct.error\<close>
  outside \<open>0 .. 2^32 - 1\<close>.\<close>

definition struct_pack_L :: "int \<Rightarrow> bytes result" where
  "struct_pack_L n =
     (if 0 \<le> n \<and> n \<le> 4294967295
      then Return [word_of_int n, word_of_int (n div 256),
                   word_of_int (n div 65536), word_of_int (n div 16777216)]
      else Raise StructError)"

fun str_nat :: "nat \<Rightarrow> string" where
  "str_nat n =
     (if n < 10 then [''0123456789'' ! n]
      else str_nat (n div 10) @ [''0123456789'' ! (n mod 10)])"

declare str_nat.simps [simp del]

text \<open>\<open>socket.inet_ntoa\<close>: dotted decimal of exactly four bytes.\<close>

definition inet_ntoa :: "bytes \<Rightarrow> string result" where
  "inet_ntoa packed =
     (case packed of
        [a, b, c, d] \<Rightarrow>
          Return (str_nat (unat a) @ ''.'' @ str_nat (unat b) @ ''.'' @
                  str_nat (unat c) @ ''.'' @ str_nat (unat d))
      | _ \<Rightarrow> Raise OSError)"

fun bin_digits :: "nat \<Rightarrow> string" where
  "bin_digits n =
     (if n < 2 then [''01'' ! n] else bin_digits (n div 2) @ [''01'' ! (n mod 2)])"

declare bin_digits.simps [simp del]

definition bin :: "int \<Rightarrow> string" where
  "bin n = (if n < 0 then ''-0b'' @ bin_digits (nat (- n)) else ''0b'' @ bin_digits (nat n))"

section \<open>The lease parser\<close>

record lease =
  IpAddr :: string
  Netmask :: string
  Gateway :: string
  DhcpServer :: string
  DnsPrimary :: string
  DnsSecondary :: string
  RxMaxBps :: string
  TxMaxBps :: string
  NetmaskBits :: int

text \<open>
  \<open>DhcpParse\<close> applied to a \<open>str\<close> (the \<open>isinstance\<close> test holds). \<open>Return None\<close> is the
  source's \<open>return None\<close>; the conversions in the loop and the index \<open>txMaxBps[0]\<close> can
  raise, and nothing in the function catches.
\<close>

definition decode_field :: "string \<Rightarrow> string result" where
  "decode_field f = bind (py_int f 16) (\<lambda>n. bind (struct_pack_L n) inet_ntoa)"

definition DhcpParse :: "string \<Rightarrow> lease option result" where
  "DhcpParse dhcp =
     (let fields = split_once CHR '':'' dhcp in
      if length fields = 2 then
        (let field_array = split_on CHR '','' (fields ! 1) in
         if length field_array \<ge> 8 then
           bind (mapM (\<lambda>i. decode_field (field_array ! i)) [0 ..< 6]) (\<lambda>ips.
           bind (mapM (\<lambda>x. py_int x 10) (split_on CHR ''.'' (ips ! 1))) (\<lambda>octets.
             let netmaskbits = sum_list (map (\<lambda>n. int (count_list (bin n) CHR ''1'')) octets);
                 txMaxBps = split_ws (field_array ! 7)
             in case txMaxBps of
                  [] \<Rightarrow> Raise IndexError
                | tx # _ \<Rightarrow>
                    Return (Some \<lparr> IpAddr = ips ! 0, Netmask = ips ! 1, Gateway = ips ! 2,
                                   DhcpServer = ips ! 3, DnsPrimary = ips ! 4,
                                   DnsSecondary = ips ! 5, RxMaxBps = field_array ! 6,
                                   TxMaxBps = tx, NetmaskBits = netmaskbits \<rparr>)))
         else Return None)
      else Return None)"

section \<open>Text on the wire\<close>

text \<open>\<open>str.encode()\<close> (UTF-8) of text below U+0100: one byte below U+0080, two above.\<close>

definition encode_utf8 :: "string \<Rightarrow> bytes" where
  "encode_utf8 s =
     concat (map (\<lambda>c. let n = (of_char c :: nat)
                       in if n < 128 then [of_nat n]
                          else [of_nat (192 + n div 64), of_nat (128 + n mod 64)]) s)"

definition is_cont :: "byte \<Rightarrow> bool" where
  "is_cont b \<longleftrightarrow> 0x80 \<le> b \<and> b \<le> 0xBF"

definition second_of3 :: "byte \<Rightarrow> byte \<Rightarrow> bool" where
  "second_of3 b c \<longleftrightarrow>
     (if b = 0xE0 then 0xA0 \<le> c \<and> c \<le> 0xBF
      else if b = 0xED then 0x80 \<le> c \<and> c \<le> 0x9F else is_cont c)"

definition second_of4 :: "byte \<Rightarrow> byte \<Rightarrow> bool" where
  "second_of4 b c \<longleftrightarrow>
     (if b = 0xF0 then 0x90 \<le> c \<and> c \<le> 0xBF
      else if b = 0xF4 then 0x80 \<le> c \<and> c \<le> 0x8F else is_cont c)"

text \<open>A well-formed sequence for a character from U+0100 on: the decoding still raises if
  the rest is malformed, and is outside this development otherwise.\<close>

fun wide :: "string result \<Rightarrow> string result" where
  "wide (Raise e) = Raise e"
| "wide r = Unmodelled"

text \<open>\<open>b.decode("utf-8")\<close>, strict: overlong forms, surrogates, stray continuation
  bytes, truncated sequences and bytes from 0xF5 on raise \<open>UnicodeDecodeError\<close>.\<close>

fun decode_utf8 :: "bytes \<Rightarrow> string result" where
  "decode_utf8 [] = Return []"
| "decode_utf8 (b # bs) =
     (if b < 0x80 then bind (decode_utf8 bs) (\<lambda>s. Return (char_of (unat b) # s))
      else if 0xC2 \<le> b \<and> b \<le> 0xDF then
        (case bs of
           c1 # r \<Rightarrow>
             if is_cont c1 then
               (if b \<le> 0xC3
                then bind (decode_utf8 r)
                       (\<lambda>s. Return (char_of (64 * (unat b - 192) + (unat c1 - 128)) # s))
                else wide (decode_utf8 r))
             else Raise UnicodeDecodeError
         | [] \<Rightarrow> Raise UnicodeDecodeError)
      else if 0xE0 \<le> b \<and> b \<le> 0xEF then
        (case bs of
           c1 # c2 # r \<Rightarrow>
             if second_of3 b c1 \<and> is_cont c2 then wide (decode_utf8 r)
             else Raise UnicodeDecodeError
         | _ \<Rightarrow> Raise UnicodeDecodeError)
      else if 0xF0 \<le> b \<and> b \<le> 0xF4 then
        (case bs of
           c1 # c2 # c3 # r \<Rightarrow>
             if second_of4 b c1 \<and> is_cont c2 \<and> is_cont c3 then wide (decode_utf8 r)
             else Raise UnicodeDecodeError
         | _ \<Rightarrow> Raise UnicodeDecodeError)
      else Raise UnicodeDecodeError)"

section \<open>The serial session\<close>

text \<open>
  The \<open>serial.Serial\<close> object and the device behind it. \<open>timeout\<close> is the attribute of
  that name (seconds). \<open>rxbuf\<close> holds bytes received and not yet read; \<open>arrivals\<close> lists
  what reaches the port while each coming \<open>read\<close> waits (nothing once the list is
  used up). \<open>wire\<close> records each \<open>write\<close> and each \<open>read\<close>, the latter with its byte
  budget and the timeout in force. The port stays attached: \<open>write\<close> and \<open>read\<close> do not
  raise.
\<close>

datatype io_event = Write bytes | Read nat int

record serial =
  timeout :: int
  rxbuf :: bytes
  arrivals :: "bytes list"
  wire :: "io_event list"

definition ser_write :: "bytes \<Rightarrow> serial \<Rightarrow> serial" where
  "ser_write data ser = ser\<lparr>wire := wire ser @ [Write data]\<rparr>"

definition ser_read :: "nat \<Rightarrow> serial \<Rightarrow> bytes \<times> serial" where
  "ser_read n ser =
     (let avail = rxbuf ser @ (case arrivals ser of [] \<Rightarrow> [] | a # _ \<Rightarrow> a)
      in (take n avail,
          ser\<lparr>rxbuf := drop n avail, arrivals := tl (arrivals ser),
              wire := wire ser @ [Read n (timeout ser)]\<rparr>))"

text \<open>Sequencing a step that may raise with the state reached so far.\<close>

fun and_then :: "'a result \<Rightarrow> 's \<Rightarrow> ('a \<Rightarrow> 'b result \<times> 's) \<Rightarrow> 'b result \<times> 's" where
  "and_then (Return x) st f = f x"
| "and_then (Raise e) st f = (Raise e, st)"
| "and_then Unmodelled st f = (Unmodelled, st)"

text \<open>
  The local variable \<open>s\<close> of the four exchange functions is bound only by
  \<open>if s2: s = s2.decode("utf-8")\<close>; \<open>None\<close> is the unbound variable, and reading it
  raises \<open>UnboundLocalError\<close>.
\<close>

definition decode_if_read :: "bytes \<Rightarrow> string option \<Rightarrow> string option result" where
  "decode_if_read s2 s =
     (if s2 \<noteq> [] then bind (decode_utf8 s2) (\<lambda>t. Return (Some t)) else Return s)"

definition load_local :: "string option \<Rightarrow> string result" where
  "load_local s = (case s of None \<Rightarrow> Raise UnboundLocalError | Some t \<Rightarrow> Return t)"

text \<open>The text that follows the leftmost occurrence of a literal pattern.\<close>

fun after_first :: "string \<Rightarrow> string \<Rightarrow> string option" where
  "after_first pat [] = (if pat = [] then Some [] else None)"
| "after_first pat (c # cs) =
     (if take (length pat) (c # cs) = pat then Some (drop (length pat) (c # cs))
      else after_first pat cs)"

text \<open>\<open>re.search(pat, s) is not None\<close> for a pattern without metacharacters.\<close>

definition re_search :: "string \<Rightarrow> string \<Rightarrow> bool" where
  "re_search pat s \<longleftrightarrow> after_first pat s \<noteq> None"

definition CR :: char where
  "CR = CHR 0x0D"

definition carrier :: string where
  "carrier = ''h2g2''"

definition ModemOk :: "serial \<Rightarrow> bool result \<times> serial" where
  "ModemOk ser =
     (let ser1 = ser_write (encode_utf8 (''AT'' @ [CR])) ser;
          (s2, ser2) = ser_read 10 ser1
      in and_then (decode_if_read s2 None) ser2 (\<lambda>s.
         and_then (load_local s) ser2 (\<lambda>text.
           (Return (re_search ''OK'' text), ser2))))"

definition ModemHangup :: "serial \<Rightarrow> bool result \<times> serial" where
  "ModemHangup ser =
     (let ser1 = ser_write (encode_utf8 (''AT^NDISDUP=1,0'' @ [CR])) ser;
          (s2, ser2) = ser_read 20 ser1
      in and_then (decode_if_read s2 None) ser2 (\<lambda>s.
         and_then (load_local s) ser2 (\<lambda>text.
           if \<not> re_search ''OK'' text then
             (if \<not> re_search ''ERROR'' text then
                (let t = timeout ser2;
                     ser3 = ser2\<lparr>timeout := 20\<rparr>;
                     (s2', ser4) = ser_read 10 ser3
                 in and_then (decode_if_read s2' s) ser4 (\<lambda>s'.
                      let ser5 = ser4\<lparr>timeout := t\<rparr>
                      in and_then (load_local s') ser5 (\<lambda>text'.
                           if \<not> re_search ''OK'' text' then (Return False, ser5)
                           else (Return True, ser5))))
              else (Return False, ser2))
           else (Return True, ser2))))"

definition ModemConnect :: "serial \<Rightarrow> bool result \<times> serial" where
  "ModemConnect ser =
     (let ser1 = ser_write (encode_utf8 (''AT^NDISDUP=1,1,\"'' @ carrier @ ''\"'' @ [CR])) ser;
          (s2, ser2) = ser_read 30 ser1
      in and_then (decode_if_read s2 None) ser2 (\<lambda>s.
         and_then (load_local s) ser2 (\<lambda>text.
           (Return (re_search ''OK'' text), ser2))))"

definition ModemDhcpStatus :: "serial \<Rightarrow> lease option result \<times> serial" where
  "ModemDhcpStatus ser =
     (let ser1 = ser_write (encode_utf8 (''AT^DHCP?'' @ [CR])) ser;
          (s2, ser2) = ser_read 100 ser1
      in and_then (decode_if_read s2 None) ser2 (\<lambda>s.
         and_then (load_local s) ser2 (\<lambda>text.
           if \<not> re_search ''OK'' text then (Return None, ser2)
           else (DhcpParse text, ser2))))"

section \<open>The host: interface, routes and resolver\<close>

text \<open>
  Every change to the host goes through a child process. \<open>Exec argv\<close> is
  \<open>subprocess.check_output(argv)\<close>, \<open>Shell line\<close> is \<open>subprocess.call(line, shell=True)\<close>
  and \<open>Pipe argv1 argv2\<close> is a pair of \<open>Popen\<close> objects, the first writing into the
  second. The host answers a command with an exit status and the bytes on standard
  output; the answer may depend on every command run before. \<open>history\<close> lists the
  commands run. The programs named exist, as the header of the source assumes, so starting
  a process does not raise. Diagnostic printing under \<open>verbose\<close> is left out, except where
  evaluating the printed expression raises.
\<close>

datatype os_cmd = Exec "string list" | Shell string | Pipe "string list" "string list"

record host =
  reply :: "os_cmd list \<Rightarrow> os_cmd \<Rightarrow> int \<times> bytes"
  history :: "os_cmd list"

definition run :: "os_cmd \<Rightarrow> host \<Rightarrow> (int \<times> bytes) \<times> host" where
  "run cmd h = (reply h (history h) cmd, h\<lparr>history := history h @ [cmd]\<rparr>)"

definition dev :: string where
  "dev = ''wwan0''"

definition dev_at :: string where
  "dev_at = ''/dev/ttyUSB0''"

definition ifconfig :: string where
  "ifconfig = ''/sbin/ifconfig''"

definition str_int :: "int \<Rightarrow> string" where
  "str_int n = (if n < 0 then ''-'' @ str_nat (nat (- n)) else str_nat (nat n))"

text \<open>\<open>check_output\<close> raises \<open>CalledProcessError\<close> on a non-zero exit status; the source
  catches it and returns \<open>None\<close>.\<close>

definition GetInterface :: "string \<Rightarrow> host \<Rightarrow> bytes option \<times> host" where
  "GetInterface device h =
     (case run (Exec [ifconfig, device]) h of
        ((rc, out), h') \<Rightarrow> (if rc \<noteq> 0 then None else Some out, h'))"

text \<open>The character class \<open>[0-9.]\<close>.\<close>

definition digit_or_dot :: "char \<Rightarrow> bool" where
  "digit_or_dot c \<longleftrightarrow> c = CHR ''.'' \<or> (48 \<le> (of_char c :: nat) \<and> (of_char c :: nat) \<le> 57)"

text \<open>\<open>re.search(label + '([0-9.]*)', text)\<close> and its group 1: the longest run of digits
  and dots after the leftmost occurrence of the label.\<close>

definition search_number_after :: "string \<Rightarrow> string \<Rightarrow> string option" where
  "search_number_after label text = map_option (takeWhile digit_or_dot) (after_first label text)"

definition GetIpAddr :: "bytes \<Rightarrow> string option result" where
  "GetIpAddr ifout = bind (decode_utf8 ifout) (\<lambda>text. Return (search_number_after ''inet '' text))"

definition GetIpMask :: "bytes \<Rightarrow> string option result" where
  "GetIpMask ifout = bind (decode_utf8 ifout) (\<lambda>text. Return (search_number_after ''netmask '' text))"

definition EraseInterfaceIpAddress :: "string \<Rightarrow> host \<Rightarrow> unit result \<times> host" where
  "EraseInterfaceIpAddress device h =
     (case GetInterface device h of
        (None, h1) \<Rightarrow> (Return (), h1)
      | (Some ifStatus, h1) \<Rightarrow>
          (Return (), snd (run (Shell (''/sbin/ip addr flush dev '' @ device)) h1)))"

definition UpdateInterfaceIpAddress :: "string \<Rightarrow> lease option \<Rightarrow> host \<Rightarrow> unit result \<times> host" where
  "UpdateInterfaceIpAddress device dhcpStatus h =
     (case dhcpStatus of
        None \<Rightarrow> (Return (), h)
      | Some st \<Rightarrow>
          (case GetInterface device h of
             (None, h1) \<Rightarrow> (Return (), h1)
           | (Some ifStatus, h1) \<Rightarrow>
               and_then (GetIpAddr ifStatus) h1 (\<lambda>addr.
               and_then (GetIpMask ifStatus) h1 (\<lambda>netmask.
                 if addr \<noteq> Some (IpAddr st) \<or> netmask \<noteq> Some (Netmask st) then
                   (let h2 = snd (run (Shell (''/sbin/ip addr flush dev '' @ device)) h1);
                        h3 = snd (run (Shell (''/sbin/ip address add '' @ IpAddr st @ ''/'' @
                                              str_int (NetmaskBits st) @ '' dev '' @ device)) h2)
                    in (Return (), h3))
                 else (Return (), h1)))))"

record gateway_info =
  GwIpAddr :: string
  GwDevice :: string

text \<open>
  \<open>GetGatewayInfo\<close>. With a device name the route table is piped through \<open>grep\<close> and
  the exit status is not looked at. Without one, a failing \<open>/sbin/route\<close> is caught, but
  the handler prints the undefined name \<open>device\<close> when \<open>verbose >= 1\<close>. The match of
  \<open>default *(.*)\<close> starts at the leftmost \<open>default\<close>, skips blanks, and its group runs to
  the end of the line.
\<close>

definition GetGatewayInfo :: "nat \<Rightarrow> string \<Rightarrow> host \<Rightarrow> gateway_info option result \<times> host" where
  "GetGatewayInfo verbose device h =
     (let (routes, h1) =
            (if device \<noteq> [] then
               (case run (Pipe [''/sbin/route''] [''/bin/grep'', '' '' @ device @ ''$'']) h of
                  ((rc, out), h') \<Rightarrow> (Return (Some out), h'))
             else
               (case run (Exec [''/sbin/route'']) h of
                  ((rc, out), h') \<Rightarrow>
                    (if rc \<noteq> 0 then (if verbose \<ge> 1 then Raise NameError else Return None)
                     else Return (Some out), h')))
      in and_then routes h1 (\<lambda>r.
           case r of
             None \<Rightarrow> (Return None, h1)
           | Some out \<Rightarrow>
               and_then (decode_utf8 out) h1 (\<lambda>text.
                 case after_first ''default'' text of
                   None \<Rightarrow> (Return None, h1)
                 | Some rest \<Rightarrow>
                     (let group1 = takeWhile (\<lambda>c. c \<noteq> CHR 0x0A)
                                     (dropWhile (\<lambda>c. c = CHR '' '') rest);
                          gateway = takeWhile digit_or_dot group1;
                          gateway_dev = rev (takeWhile (\<lambda>c. c \<noteq> CHR '' '') (rev group1))
                      in (Return (Some \<lparr> GwIpAddr = gateway, GwDevice = gateway_dev \<rparr>), h1)))))"

definition RemoveGateway :: "string \<Rightarrow> string \<Rightarrow> host \<Rightarrow> unit result \<times> host" where
  "RemoveGateway gateway device h =
     (Return (), snd (run (Shell (''/sbin/route delete default gw '' @ gateway @ '' '' @ device)) h))"

definition SetGateway :: "nat \<Rightarrow> string \<Rightarrow> string \<Rightarrow> host \<Rightarrow> unit result \<times> host" where
  "SetGateway verbose gateway device h =
     (case GetGatewayInfo verbose device h of
        (r, h1) \<Rightarrow>
          and_then r h1 (\<lambda>currentGateway.
            let add = (\<lambda>h'. (Return (), snd (run (Shell (''/sbin/ip route add default via '' @ gateway)) h')))
            in case currentGateway of
                 None \<Rightarrow> add h1
               | Some cur \<Rightarrow>
                   if GwIpAddr cur = gateway then (Return (), h1)
                   else (case RemoveGateway (GwIpAddr cur) (GwDevice cur) h1 of
                           (r2, h2) \<Rightarrow> and_then r2 h2 (\<lambda>_. add h2))))"

definition AddDns :: "string \<Rightarrow> string \<Rightarrow> host \<Rightarrow> unit result \<times> host" where
  "AddDns dns device h =
     (Return (), snd (run (Pipe [''/bin/echo'', ''nameserver '' @ dns]
                                [''/sbin/resolvconf'', ''-a'', device @ ''.modem'']) h))"

definition RmDns :: "string \<Rightarrow> host \<Rightarrow> unit result \<times> host" where
  "RmDns device h =
     (Return (), snd (run (Shell (''/sbin/resolvconf -d '' @ device @ ''.modem'')) h))"

section \<open>The main program\<close>

text \<open>
  The options after a successful \<open>parse_args\<close>; \<open>action='count'\<close> leaves \<open>None\<close> for an
  option not given, which is 0 here. The world of a run: which serial devices can be
  opened, the modem's line, and the host.
\<close>

record args =
  connect :: nat
  disconnect :: nat
  verbosity :: nat

record world =
  openable :: "string \<Rightarrow> bool"
  line :: serial
  os :: host

text \<open>\<open>serial.Serial(device, timeout=2)\<close>; a \<open>SerialException\<close> is caught and gives
  \<open>None\<close>.\<close>

definition OpenModem :: "string \<Rightarrow> world \<Rightarrow> serial option" where
  "OpenModem device w = (if openable w device then Some ((line w)\<lparr>timeout := 2\<rparr>) else None)"

definition connect_flow :: "nat \<Rightarrow> world \<Rightarrow> unit result \<times> world" where
  "connect_flow verbose w =
     (case OpenModem dev_at w of
        None \<Rightarrow> (Return (), w)
      | Some ser \<Rightarrow>
          (case ModemOk ser of (r1, ser1) \<Rightarrow>
           and_then r1 (w\<lparr>line := ser1\<rparr>) (\<lambda>ok.
          (case ModemConnect ser1 of (r2, ser2) \<Rightarrow>
           and_then r2 (w\<lparr>line := ser2\<rparr>) (\<lambda>ok.
          (case ModemDhcpStatus ser2 of (r3, ser3) \<Rightarrow>
           and_then r3 (w\<lparr>line := ser3\<rparr>) (\<lambda>status.
             case status of
               None \<Rightarrow> (Return (), w\<lparr>line := ser3\<rparr>)
             | Some st \<Rightarrow>
                 (case UpdateInterfaceIpAddress dev status (os w) of (r4, h4) \<Rightarrow>
                  and_then r4 (w\<lparr>line := ser3, os := h4\<rparr>) (\<lambda>_.
                 (case SetGateway verbose (Gateway st) dev h4 of (r5, h5) \<Rightarrow>
                  and_then r5 (w\<lparr>line := ser3, os := h5\<rparr>) (\<lambda>_.
                 (case AddDns (DnsPrimary st) dev h5 of (r6, h6) \<Rightarrow>
                    (r6, w\<lparr>line := ser3, os := h6\<rparr>)))))))))))))"

text \<open>The disconnect flow does not test \<open>ser\<close>: with \<open>None\<close>, the first statement of
  \<open>ModemHangup\<close>, \<open>ser.write\<close>, raises \<open>AttributeError\<close>.\<close>

definition disconnect_flow :: "nat \<Rightarrow> world \<Rightarrow> unit result \<times> world" where
  "disconnect_flow verbose w =
     (case OpenModem dev_at w of
        None \<Rightarrow> (Raise AttributeError, w)
      | Some ser \<Rightarrow>
          (case ModemHangup ser of (r1, ser1) \<Rightarrow>
           and_then r1 (w\<lparr>line := ser1\<rparr>) (\<lambda>ok.
          (case EraseInterfaceIpAddress dev (os w) of (r2, h2) \<Rightarrow>
           and_then r2 (w\<lparr>line := ser1, os := h2\<rparr>) (\<lambda>_.
          (case GetGatewayInfo verbose dev h2 of (r3, h3) \<Rightarrow>
           and_then r3 (w\<lparr>line := ser1, os := h3\<rparr>) (\<lambda>currentGateway.
          (case (case currentGateway of
                   None \<Rightarrow> (Return (), h3)
                 | Some cur \<Rightarrow> RemoveGateway (GwIpAddr cur) dev h3) of (r4, h4) \<Rightarrow>
           and_then r4 (w\<lparr>line := ser1, os := h4\<rparr>) (\<lambda>_.
          (case RmDns dev h4 of (r5, h5) \<Rightarrow>
             (r5, w\<lparr>line := ser1, os := h5\<rparr>)))))))))))"

text \<open>The module body after \<open>parse_args\<close>. \<open>Return ()\<close> is reaching \<open>exit(0)\<close>; an
  exception that nothing catches ends the interpreter with status 1.\<close>

definition main :: "args \<Rightarrow> world \<Rightarrow> unit result \<times> world" where
  "main a w =
     (let verbose = (if verbosity a \<noteq> 0 then verbosity a else 0)
      in case (if connect a \<noteq> 0 then connect_flow verbose w else (Return (), w)) of
           (r1, w1) \<Rightarrow>
             and_then r1 w1 (\<lambda>_.
               if disconnect a \<noteq> 0 then disconnect_flow verbose w1 else (Return (), w1)))"

definition exit_status :: "unit result \<Rightarrow> int option" where
  "exit_status r = (case r of Return _ \<Rightarrow> Some 0 | Raise e \<Rightarrow> Some 1 | Unmodelled \<Rightarrow> None)"

section \<open>Addresses as the specification words them\<close>

text \<open>
  An IPv4 address is four octets in the order they are written, \<open>a.b.c.d\<close>. \<open>dotted\<close>
  is its dotted-decimal text. \<open>le_hex\<close> is the wire encoding of the specification: the
  32-bit word that stores the octets in reverse of the address order, written as eight
  hexadecimal digits, so that \<open>10.0.0.1\<close> is \<open>0100000A\<close>. \<open>le_value\<close> is the number
  those digits denote. \<open>set_bits\<close> counts the bit positions of an octet that are set, and
  \<open>mask_bits\<close> adds the four counts of an address.
\<close>

type_synonym ipv4 = "byte \<times> byte \<times> byte \<times> byte"

definition dotted :: "ipv4 \<Rightarrow> string" where
  "dotted ip =
     (case ip of (a, b, c, d) \<Rightarrow>
        str_nat (unat a) @ ''.'' @ str_nat (unat b) @ ''.'' @
        str_nat (unat c) @ ''.'' @ str_nat (unat d))"

definition hex_digit :: "nat \<Rightarrow> char" where
  "hex_digit n = ''0123456789ABCDEF'' ! n"

definition hex2 :: "byte \<Rightarrow> string" where
  "hex2 x = [hex_digit (unat x div 16), hex_digit (unat x mod 16)]"

definition le_hex :: "ipv4 \<Rightarrow> string" where
  "le_hex ip = (case ip of (a, b, c, d) \<Rightarrow> hex2 d @ hex2 c @ hex2 b @ hex2 a)"

definition le_value :: "ipv4 \<Rightarrow> int" where
  "le_value ip =
     (case ip of (a, b, c, d) \<Rightarrow>
        ((int (unat d) * 256 + int (unat c)) * 256 + int (unat b)) * 256 + int (unat a))"

definition octet_values :: "ipv4 \<Rightarrow> int list" where
  "octet_values ip = (case ip of (a, b, c, d) \<Rightarrow> [int (unat a), int (unat b), int (unat c), int (unat d)])"

definition set_bits :: "byte \<Rightarrow> nat" where
  "set_bits x = length (filter (bit x) [0 ..< 8])"

definition mask_bits :: "ipv4 \<Rightarrow> nat" where
  "mask_bits ip =
     (case ip of (a, b, c, d) \<Rightarrow> set_bits a + set_bits b + set_bits c + set_bits d)"

section \<open>Sample sessions\<close>

text \<open>A freshly opened line on which the modem's coming replies are scripted, one per
  read.\<close>

definition scripted :: "string list \<Rightarrow> serial" where
  "scripted replies =
     \<lparr>timeout = 2, rxbuf = [], arrivals = map encode_utf8 replies, wire = []\<rparr>"

text \<open>A host that answers \<open>ifconfig\<close> and the route query with fixed text and lets every
  shell command succeed.\<close>

definition fixed_host :: "string \<Rightarrow> string \<Rightarrow> host" where
  "fixed_host ifconfig_out route_out =
     \<lparr>reply = (\<lambda>hist cmd. case cmd of
                  Exec argv \<Rightarrow> (0, encode_utf8 ifconfig_out)
                | Pipe argv1 argv2 \<Rightarrow> (0, encode_utf8 route_out)
                | Shell l \<Rightarrow> (0, [])),
      history = []\<rparr>"

definition sample_lease_reply :: string where
  "sample_lease_reply =
     ''^DHCP:0100000A,00FFFFFF,0200000A,0200000A,08080808,04040808,43200000,43200000 OK''"

text \<open>The lease that \<open>sample_lease_reply\<close> parses to.\<close>

definition sample_lease :: lease where
  "sample_lease =
     \<lparr>IpAddr = ''10.0.0.1'', Netmask = ''255.255.255.0'', Gateway = ''10.0.0.2'',
      DhcpServer = ''10.0.0.2'', DnsPrimary = ''8.8.8.8'', DnsSecondary = ''8.8.4.4'',
      RxMaxBps = ''43200000'', TxMaxBps = ''43200000'', NetmaskBits = 24\<rparr>"



text \<open>The modem acknowledges the probe, rejects the connect command, and still reports a
  lease.\<close>

definition rejecting_world :: world where
  "rejecting_world =
     \<lparr>openable = (\<lambda>d. True),
      line = scripted [''OK'', ''ERROR'', sample_lease_reply],
      os = fixed_host ''wwan0: inet 10.0.0.9  netmask 255.0.0.0''
                      ''default 10.0.0.7 0.0.0.0 UG 0 0 0 wwan0''\<rparr>"

text \<open>The modem acknowledges the probe, rejects the connect command, and reports no
  lease.\<close>

definition leaseless_world :: world where
  "leaseless_world =
     \<lparr>openable = (\<lambda>d. True),
      line = scripted [''OK'', ''ERROR'', ''ERROR''],
      os = fixed_host ''wwan0: inet 10.0.0.9  netmask 255.0.0.0''
                      ''default 10.0.0.7 0.0.0.0 UG 0 0 0 wwan0''\<rparr>"

text \<open>The modem acknowledges probe and connect and answers the DHCP query with a field
  that is not hexadecimal.\<close>

definition garbled_world :: world where
  "garbled_world =
     \<lparr>openable = (\<lambda>d. True),
      line = scripted [''OK'', ''OK'', ''^DHCP:zz,0,0,0,0,0,0,0 OK''],
      os = fixed_host ''wwan0: inet 10.0.0.9  netmask 255.0.0.0''
                      ''default 10.0.0.7 0.0.0.0 UG 0 0 0 wwan0''\<rparr>"

section \<open>Properties of the exchange functions\<close>

lemma and_then_Return:
  "and_then r st f = (Return y, st') \<Longrightarrow> \<exists>x. r = Return x \<and> f x = (Return y, st')"
  by (cases r) auto

lemma and_then_case:
  "and_then r st f =
     (case r of Return x \<Rightarrow> f x | Raise e \<Rightarrow> (Raise e, st) | Unmodelled \<Rightarrow> (Unmodelled, st))"
  by (cases r) simp_all

lemma timeout_ser_write: "timeout (ser_write d ser) = timeout ser"
  by (simp add: ser_write_def)

lemma timeout_ser_read: "timeout (snd (ser_read n ser)) = timeout ser"
  by (simp add: ser_read_def Let_def)

lemma wire_write_read:
  "wire (snd (ser_read n (ser_write d ser))) = wire ser @ [Write d, Read n (timeout ser)]"
  by (simp add: ser_read_def ser_write_def Let_def)

text \<open>
  C8. The probe does not classify the empty read: with nothing received, \<open>s\<close> is never
  bound and \<open>re.search('OK', s)\<close> raises \<open>UnboundLocalError\<close>, after one write and one
  read of 10 bytes. The specification asks for failure (\<open>False\<close>) there.
\<close>

theorem ModemOk_empty_read_raises:
  "ModemOk (ser\<lparr>rxbuf := [], arrivals := []\<rparr>) =
     (Raise UnboundLocalError,
      ser\<lparr>rxbuf := [], arrivals := [],
          wire := wire ser @ [Write (encode_utf8 (''AT'' @ [CR])), Read 10 (timeout ser)]\<rparr>)"
  by (simp add: ModemOk_def ser_read_def ser_write_def Let_def decode_if_read_def
        load_local_def)

text \<open>On a read that is not empty and decodes, the probe succeeds exactly when the text
  contains \<open>OK\<close>.\<close>

lemma ModemOk_text:
  assumes "ser_read 10 (ser_write (encode_utf8 (''AT'' @ [CR])) ser) = (s2, ser2)"
    and "s2 \<noteq> []" and "decode_utf8 s2 = Return text"
  shows "ModemOk ser = (Return (re_search ''OK'' text), ser2)"
  using assms by (simp add: ModemOk_def decode_if_read_def load_local_def)

text \<open>
  C3. Hangup fast-fail: when the text of the first read contains \<open>ERROR\<close> and not \<open>OK\<close>,
  \<open>ModemHangup\<close> returns \<open>False\<close> and the session has seen one write and one read of 20
  bytes, nothing more.
\<close>

theorem ModemHangup_error_fails_at_once:
  assumes rd: "ser_read 20 (ser_write (encode_utf8 (''AT^NDISDUP=1,0'' @ [CR])) ser) = (s2, ser2)"
    and dec: "decode_utf8 s2 = Return text"
    and err: "re_search ''ERROR'' text" and nok: "\<not> re_search ''OK'' text"
  shows "ModemHangup ser = (Return False, ser2) \<and>
         wire ser2 = wire ser @ [Write (encode_utf8 (''AT^NDISDUP=1,0'' @ [CR])),
                                 Read 20 (timeout ser)]"
proof -
  have ne: "s2 \<noteq> []"
  proof
    assume "s2 = []"
    with dec have "text = []" by simp
    with err show False by (simp add: re_search_def)
  qed
  have w: "wire ser2 = wire ser @ [Write (encode_utf8 (''AT^NDISDUP=1,0'' @ [CR])),
                                   Read 20 (timeout ser)]"
    using wire_write_read [of 20 "encode_utf8 (''AT^NDISDUP=1,0'' @ [CR])" ser] rd by simp
  have "ModemHangup ser = (Return False, ser2)"
    using rd dec err nok ne by (simp add: ModemHangup_def decode_if_read_def load_local_def)
  with w show ?thesis by simp
qed

theorem ModemHangup_error_fails_at_once_witness:
  "ModemHangup (scripted [''ERROR'']) =
     (Return False,
      \<lparr>timeout = 2, rxbuf = [], arrivals = [],
       wire = [Write (encode_utf8 (''AT^NDISDUP=1,0'' @ [CR])), Read 20 2]\<rparr>)"
proof -
  have rd: "ser_read 20 (ser_write (encode_utf8 (''AT^NDISDUP=1,0'' @ [CR])) (scripted [''ERROR''])) =
      (encode_utf8 ''ERROR'',
       \<lparr>timeout = 2, rxbuf = [], arrivals = [],
        wire = [Write (encode_utf8 (''AT^NDISDUP=1,0'' @ [CR])), Read 20 2]\<rparr>)"
    by code_simp
  have dec: "decode_utf8 (encode_utf8 ''ERROR'') = Return ''ERROR''" by code_simp
  have err: "re_search ''ERROR'' ''ERROR''" by code_simp
  have nok: "\<not> re_search ''OK'' ''ERROR''" by code_simp
  from ModemHangup_error_fails_at_once [OF rd dec err nok] show ?thesis by simp
qed

text \<open>
  C2. With a silent modem the first read is empty, so the response contains neither
  \<open>OK\<close> nor \<open>ERROR\<close>; \<open>ModemHangup\<close> then raises \<open>UnboundLocalError\<close> at the first
  search and never performs the delayed read, although \<open>OK\<close> would have arrived.
\<close>

theorem ModemHangup_silent_first_read_raises:
  "ModemHangup (ser\<lparr>rxbuf := [], arrivals := [] # encode_utf8 ''OK'' # rest\<rparr>) =
     (Raise UnboundLocalError,
      ser\<lparr>rxbuf := [], arrivals := encode_utf8 ''OK'' # rest,
          wire := wire ser @ [Write (encode_utf8 (''AT^NDISDUP=1,0'' @ [CR])),
                              Read 20 (timeout ser)]\<rparr>)"
  by (simp add: ModemHangup_def ser_read_def ser_write_def Let_def decode_if_read_def
        load_local_def)

text \<open>
  The delayed path when the first read is not empty, decodes, and contains neither token:
  one more read of 10 bytes under a timeout of 20 and no second write; an empty delayed
  read fails, a decodable one succeeds exactly when it contains \<open>OK\<close>, and the timeout is
  put back; an undecodable one raises with the timeout still 20.
\<close>

lemma ModemHangup_delayed:
  assumes rd: "ser_read 20 (ser_write (encode_utf8 (''AT^NDISDUP=1,0'' @ [CR])) ser) = (s2, ser2)"
    and ne: "s2 \<noteq> []" and dec: "decode_utf8 s2 = Return text"
    and nok: "\<not> re_search ''OK'' text" and nerr: "\<not> re_search ''ERROR'' text"
    and rd2: "ser_read 10 (ser2\<lparr>timeout := 20\<rparr>) = (s2', ser4)"
  shows "wire ser4 = wire ser @ [Write (encode_utf8 (''AT^NDISDUP=1,0'' @ [CR])),
                                 Read 20 (timeout ser), Read 10 20]"
    and "s2' = [] \<Longrightarrow> ModemHangup ser = (Return False, ser4\<lparr>timeout := timeout ser\<rparr>)"
    and "s2' \<noteq> [] \<Longrightarrow> decode_utf8 s2' = Return text' \<Longrightarrow>
           ModemHangup ser = (Return (re_search ''OK'' text'), ser4\<lparr>timeout := timeout ser\<rparr>)"
    and "s2' \<noteq> [] \<Longrightarrow> decode_utf8 s2' = Raise e \<Longrightarrow> ModemHangup ser = (Raise e, ser4)"
proof -
  have t2: "timeout ser2 = timeout ser"
    and w2: "wire ser2 = wire ser @ [Write (encode_utf8 (''AT^NDISDUP=1,0'' @ [CR])),
                                     Read 20 (timeout ser)]"
    using rd by (auto simp: ser_read_def ser_write_def Let_def)
  show "wire ser4 = wire ser @ [Write (encode_utf8 (''AT^NDISDUP=1,0'' @ [CR])),
                                Read 20 (timeout ser), Read 10 20]"
    using rd2 w2 by (auto simp: ser_read_def Let_def)
  show "s2' = [] \<Longrightarrow> ModemHangup ser = (Return False, ser4\<lparr>timeout := timeout ser\<rparr>)"
    using rd ne dec nok nerr rd2 t2
    by (simp add: ModemHangup_def decode_if_read_def load_local_def)
  show "s2' \<noteq> [] \<Longrightarrow> decode_utf8 s2' = Return text' \<Longrightarrow>
           ModemHangup ser = (Return (re_search ''OK'' text'), ser4\<lparr>timeout := timeout ser\<rparr>)"
    using rd ne dec nok nerr rd2 t2
    by (simp add: ModemHangup_def decode_if_read_def load_local_def Let_def)
  show "s2' \<noteq> [] \<Longrightarrow> decode_utf8 s2' = Raise e \<Longrightarrow> ModemHangup ser = (Raise e, ser4)"
    using rd ne dec nok nerr rd2 t2
    by (simp add: ModemHangup_def decode_if_read_def load_local_def)
qed

text \<open>
  C10. Whenever \<open>ModemHangup\<close> returns, with either result, the session's timeout is
  what it was before the call: the immediate paths never touch it and the delayed path
  puts the saved value back before it returns.
\<close>

theorem ModemHangup_preserves_timeout:
  assumes "ModemHangup ser = (Return b, ser')"
  shows "timeout ser' = timeout ser"
proof -
  define cmd where "cmd = encode_utf8 (''AT^NDISDUP=1,0'' @ [CR])"
  obtain s2 ser2 where rd: "ser_read 20 (ser_write cmd ser) = (s2, ser2)"
    by (cases "ser_read 20 (ser_write cmd ser)")
  have t2: "timeout ser2 = timeout ser"
    using timeout_ser_read [of 20 "ser_write cmd ser"] rd by (simp add: timeout_ser_write)
  obtain s2' ser4 where rd2: "ser_read 10 (ser2\<lparr>timeout := 20\<rparr>) = (s2', ser4)"
    by (cases "ser_read 10 (ser2\<lparr>timeout := 20\<rparr>)")
  from assms rd rd2 t2 show ?thesis
    unfolding ModemHangup_def cmd_def [symmetric]
    by (auto simp: Let_def split: if_splits dest!: and_then_Return)
qed

theorem ModemHangup_preserves_timeout_witness:
  "fst (ModemHangup (scripted [''AT^NDISDUP=1,0'', ''OK''])) = Return True \<and>
   wire (snd (ModemHangup (scripted [''AT^NDISDUP=1,0'', ''OK'']))) =
     [Write (encode_utf8 (''AT^NDISDUP=1,0'' @ [CR])), Read 20 2, Read 10 20] \<and>
   timeout (snd (ModemHangup (scripted [''AT^NDISDUP=1,0'', ''OK'']))) = 2"
proof -
  have r: "fst (ModemHangup (scripted [''AT^NDISDUP=1,0'', ''OK''])) = Return True"
    by code_simp
  have w: "wire (snd (ModemHangup (scripted [''AT^NDISDUP=1,0'', ''OK'']))) =
     [Write (encode_utf8 (''AT^NDISDUP=1,0'' @ [CR])), Read 20 2, Read 10 20]"
    by code_simp
  have "ModemHangup (scripted [''AT^NDISDUP=1,0'', ''OK'']) =
          (Return True, snd (ModemHangup (scripted [''AT^NDISDUP=1,0'', ''OK''])))"
    using r by (metis prod.collapse)
  from ModemHangup_preserves_timeout [OF this] r w show ?thesis
    by (simp add: scripted_def)
qed

section \<open>Properties of the lease parser\<close>

subsection \<open>Integer literals, decimal text and the address encoding\<close>

lemma digit_value_underscore: "digit_value CHR ''_'' = 37" by (simp add: digit_value_def)
lemma digit_value_plus: "digit_value CHR ''+'' = 37" by (simp add: digit_value_def)
lemma digit_value_minus: "digit_value CHR ''-'' = 37" by (simp add: digit_value_def)
lemma digit_value_dot: "digit_value CHR ''.'' = 37" by (simp add: digit_value_def)
lemma digit_value_x: "digit_value CHR ''x'' = 33" "digit_value CHR ''X'' = 33" by (simp_all add: digit_value_def)
lemma digit_value_space: "int_space c \<Longrightarrow> digit_value c = 37"
  by (auto simp: int_space_def digit_value_def)

lemma scan_digits_plain:
  "\<forall>c\<in>set s. digit_value c < b \<Longrightarrow> b \<le> 36 \<Longrightarrow>
   scan_digits b False acc s = Some (foldl (\<lambda>a c. a * b + digit_value c) acc s)"
proof (induction s arbitrary: acc)
  case Nil
  then show ?case by simp
next
  case (Cons c s)
  then have "c \<noteq> CHR ''_''" using digit_value_underscore by auto
  with Cons show ?case by simp
qed

lemma strip_plain:
  assumes "\<forall>c\<in>set s. \<not> int_space c"
  shows "strip_int_space s = s"
proof -
  have 1: "dropWhile int_space s = s" using assms by (cases s) auto
  have "\<forall>c\<in>set (rev s). \<not> int_space c" using assms by simp
  then have 2: "dropWhile int_space (rev s) = rev s" by (cases "rev s") auto
  show ?thesis by (simp add: strip_int_space_def 1 2)
qed

lemma py_int_plain:
  assumes ne: "s \<noteq> []" and dig: "\<forall>c\<in>set s. digit_value c < b" and b: "b \<le> 16"
  shows "py_int s b = Return (foldl (\<lambda>a c. a * b + digit_value c) 0 s)"
proof -
  have nsp: "\<forall>c\<in>set s. \<not> int_space c" using dig b digit_value_space by fastforce
  obtain c cs where s: "s = c # cs" using ne by (cases s) auto
  have c: "c \<noteq> CHR ''-''" "c \<noteq> CHR ''+''" "c \<noteq> CHR ''_''"
    using dig b s digit_value_minus digit_value_plus digit_value_underscore by auto
  have sign: "skip_sign s = (False, s)" using c s by (simp add: skip_sign_def)
  have pre: "skip_prefix b s = s"
  proof (cases cs)
    case Nil
    then show ?thesis using s by (simp add: skip_prefix_def)
  next
    case (Cons x r)
    then have "digit_value x < 16" using dig b s by auto
    then have "x \<noteq> CHR ''x''" "x \<noteq> CHR ''X''" using digit_value_x by auto
    then show ?thesis using s Cons by (simp add: skip_prefix_def)
  qed
  have lit: "int_literal b s = Some (foldl (\<lambda>a c. a * b + digit_value c) 0 s)"
    using scan_digits_plain [of s b 0] dig b c s by (simp add: int_literal_def)
  show ?thesis by (simp add: py_int_def strip_plain [OF nsp] sign pre lit)
qed

lemma below_16: "k < 16 \<Longrightarrow> k = 0 \<or> k = 1 \<or> k = 2 \<or> k = 3 \<or> k = 4 \<or> k = 5 \<or> k = 6 \<or> k = 7 \<or>
    k = 8 \<or> k = 9 \<or> k = 10 \<or> k = 11 \<or> k = 12 \<or> k = 13 \<or> k = 14 \<or> k = (15::nat)"
  by arith

lemma hex_digit_value: "k < 16 \<Longrightarrow> digit_value (hex_digit k) = int k"
  by (drule below_16) (elim disjE; simp add: hex_digit_def digit_value_def)

lemma below_10: "k < 10 \<Longrightarrow> k = 0 \<or> k = 1 \<or> k = 2 \<or> k = 3 \<or> k = 4 \<or> k = 5 \<or> k = 6 \<or> k = 7 \<or>
    k = 8 \<or> k = (9::nat)"
  by arith

lemma dec_digit_value: "k < 10 \<Longrightarrow> digit_value (''0123456789'' ! k) = int k"
  by (drule below_10) (elim disjE; simp add: digit_value_def)

lemma str_nat_digits: "c \<in> set (str_nat n) \<Longrightarrow> 0 \<le> digit_value c \<and> digit_value c < 10"
proof (induction n rule: str_nat.induct)
  case (1 n)
  show ?case
  proof (cases "n < 10")
    case True
    with "1.prems" have "c = ''0123456789'' ! n" by (subst (asm) str_nat.simps) simp
    with True dec_digit_value [of n] show ?thesis by simp
  next
    case False
    with "1.prems" have "c \<in> set (str_nat (n div 10)) \<or> c = ''0123456789'' ! (n mod 10)"
      by (subst (asm) str_nat.simps) auto
    then show ?thesis
    proof
      assume "c \<in> set (str_nat (n div 10))"
      with "1.IH" False show ?thesis by simp
    next
      assume "c = ''0123456789'' ! (n mod 10)"
      with dec_digit_value [of "n mod 10"] show ?thesis by simp
    qed
  qed
qed

lemma str_nat_nonempty: "str_nat n \<noteq> []"
  by (subst str_nat.simps) simp

lemma foldl_str_nat:
  "foldl (\<lambda>a c. a * 10 + digit_value c) 0 (str_nat n) = int n"
proof (induction n rule: str_nat.induct)
  case (1 n)
  show ?case
  proof (cases "n < 10")
    case True
    then show ?thesis using dec_digit_value [of n] by (subst str_nat.simps) simp
  next
    case False
    have "foldl (\<lambda>a c. a * 10 + digit_value c) 0 (str_nat n) =
          foldl (\<lambda>a c. a * 10 + digit_value c) 0 (str_nat (n div 10)) * 10 + digit_value (''0123456789'' ! (n mod 10))"
      using False by (subst str_nat.simps) simp
    also have "\<dots> = int (n div 10) * 10 + int (n mod 10)"
      using "1.IH" False dec_digit_value [of "n mod 10"] by simp
    also have "\<dots> = int n" by presburger
    finally show ?thesis .
  qed
qed

lemma py_int_str_nat: "py_int (str_nat n) 10 = Return (int n)"
proof -
  have "\<forall>c\<in>set (str_nat n). digit_value c < 10" using str_nat_digits by blast
  from py_int_plain [OF str_nat_nonempty this] show ?thesis by (simp add: foldl_str_nat)
qed

lemma dot_not_in_str_nat: "CHR ''.'' \<notin> set (str_nat n)"
  using str_nat_digits [of "CHR ''.''" n] digit_value_dot by auto

lemma split_from_no_sep: "sep \<notin> set a \<Longrightarrow> split_from sep cur a = [cur @ a]"
  by (induction a arbitrary: cur) auto

lemma split_from_sep:
  "sep \<notin> set a \<Longrightarrow> split_from sep cur (a @ sep # b) = (cur @ a) # split_from sep [] b"
  by (induction a arbitrary: cur) auto

lemma split_on_dotted:
  "split_on CHR ''.'' (dotted (a, b, c, d)) =
     [str_nat (unat a), str_nat (unat b), str_nat (unat c), str_nat (unat d)]"
proof -
  have "split_from CHR ''.'' [] (str_nat (unat a) @ CHR ''.'' # str_nat (unat b) @ CHR ''.'' # str_nat (unat c) @ CHR ''.'' # str_nat (unat d))
    = [str_nat (unat a), str_nat (unat b), str_nat (unat c), str_nat (unat d)]"
    by (simp add: split_from_sep split_from_no_sep dot_not_in_str_nat)
  then show ?thesis by (simp add: split_on_def dotted_def)
qed

lemma hex2_digits: "c \<in> set (hex2 x) \<Longrightarrow> digit_value c < 16"
proof -
  assume c: "c \<in> set (hex2 x)"
  have "unat x < 256" using unsigned_less [of x] by simp
  then have "unat x div 16 < 16" "unat x mod 16 < 16" by auto
  with c hex_digit_value show ?thesis by (auto simp: hex2_def)
qed

lemma foldl_hex2:
  "foldl (\<lambda>a c. a * 16 + digit_value c) acc (hex2 x) = acc * 256 + int (unat x)"
proof -
  have "unat x < 256" using unsigned_less [of x] by simp
  then have "unat x div 16 < 16" "unat x mod 16 < 16" by auto
  then have "foldl (\<lambda>a c. a * 16 + digit_value c) acc (hex2 x) =
        (acc * 16 + int (unat x div 16)) * 16 + int (unat x mod 16)"
    by (simp add: hex2_def hex_digit_value)
  also have "\<dots> = acc * 256 + int (unat x)" by presburger
  finally show ?thesis .
qed

lemma py_int_le_hex: "py_int (le_hex ip) 16 = Return (le_value ip)"
proof -
  obtain a b c d where ip: "ip = (a, b, c, d)" by (cases ip) auto
  have ne: "le_hex ip \<noteq> []" by (simp add: ip le_hex_def hex2_def)
  have dig: "\<forall>ch\<in>set (le_hex ip). digit_value ch < 16"
    using hex2_digits by (auto simp: ip le_hex_def)
  have "foldl (\<lambda>a c. a * 16 + digit_value c) 0 (le_hex ip) = le_value ip"
    by (simp add: ip le_hex_def le_value_def foldl_hex2)
  with py_int_plain [OF ne dig] show ?thesis by simp
qed

lemma byte_of_int: "int (unat a) = k mod 256 \<Longrightarrow> (word_of_int k :: byte) = a"
proof -
  assume h: "int (unat a) = k mod 256"
  have "(word_of_int k :: byte) = word_of_int (k mod 256)"
    by (simp add: word_of_int_eq_iff take_bit_eq_mod)
  also have "\<dots> = word_of_int (int (unat a))" using h by simp
  also have "\<dots> = a" by simp
  finally show ?thesis .
qed

lemma split_256:
  "0 \<le> r \<Longrightarrow> r < 256 \<Longrightarrow> (q * 256 + r) div 256 = q \<and> (q * 256 + r) mod 256 = (r::int)"
  by simp

lemma struct_pack_L_le_value: "struct_pack_L (le_value (a, b, c, d)) = Return [a, b, c, d]"
proof -
  define A B C D where "A = int (unat a)" and "B = int (unat b)"
    and "C = int (unat c)" and "D = int (unat d)"
  have bnd: "0 \<le> A" "A < 256" "0 \<le> B" "B < 256" "0 \<le> C" "C < 256" "0 \<le> D" "D < 256"
    using unsigned_less [of a] unsigned_less [of b] unsigned_less [of c] unsigned_less [of d]
    by (simp_all add: A_def B_def C_def D_def)
  define n2 where "n2 = D * 256 + C"
  define n1 where "n1 = n2 * 256 + B"
  define n where "n = n1 * 256 + A"
  have n: "le_value (a, b, c, d) = n"
    by (simp add: le_value_def n_def n1_def n2_def A_def B_def C_def D_def)
  have s0: "n div 256 = n1" "n mod 256 = A" using split_256 [of A n1] bnd by (simp_all add: n_def)
  have s1: "n1 div 256 = n2" "n1 mod 256 = B" using split_256 [of B n2] bnd by (simp_all add: n1_def)
  have s2: "n2 div 256 = D" "n2 mod 256 = C" using split_256 [of C D] bnd by (simp_all add: n2_def)
  have "n div (256 * 256) = n div 256 div 256" by (rule zdiv_zmult2_eq) simp
  then have d2: "n div 65536 = n2" using s0 s1 by simp
  have "n div (65536 * 256) = n div 65536 div 256" by (rule zdiv_zmult2_eq) simp
  then have d3: "n div 16777216 = D" using d2 s2 by simp
  have "0 \<le> n2" "n2 \<le> 65535" using bnd by (simp_all add: n2_def)
  then have "0 \<le> n1" "n1 \<le> 16777215" using bnd by (simp_all add: n1_def)
  then have rng: "0 \<le> n" "n \<le> 4294967295" using bnd by (simp_all add: n_def)
  have "word_of_int n = a"
    by (rule byte_of_int) (simp add: s0 A_def)
  moreover have "word_of_int (n div 256) = b"
    by (rule byte_of_int) (simp add: s0 s1 B_def)
  moreover have "word_of_int (n div 65536) = c"
    by (rule byte_of_int) (simp add: d2 s2 C_def)
  moreover have "word_of_int (n div 16777216) = d"
  proof (rule byte_of_int)
    have "D mod 256 = D" using bnd by simp
    then show "int (unat d) = n div 16777216 mod 256" by (simp add: d3 D_def)
  qed
  ultimately show ?thesis using rng by (simp add: n struct_pack_L_def)
qed

lemma decode_field_le_hex: "decode_field (le_hex ip) = Return (dotted ip)"
proof -
  obtain a b c d where ip: "ip = (a, b, c, d)" by (cases ip) auto
  show ?thesis
    by (simp add: decode_field_def py_int_le_hex ip struct_pack_L_le_value inet_ntoa_def dotted_def)
qed




lemma filter_bit_Suc:
  "length (filter (bit (n::nat)) [0 ..< Suc k]) =
     (if odd n then 1 else 0) + length (filter (bit (n div 2)) [0 ..< k])"
proof -
  have "[0 ..< Suc k] = 0 # map Suc [0 ..< k]" by (simp add: upt_conv_Cons map_Suc_upt)
  then show ?thesis by (simp add: filter_map comp_def bit_Suc bit_0 del: upt_Suc)
qed

lemma count_ones_bin_digits:
  "n < 2 ^ k \<Longrightarrow> count_list (bin_digits n) CHR ''1'' = length (filter (bit n) [0 ..< k])"
proof (induction k arbitrary: n)
  case 0
  then have "n = 0" by simp
  then show ?case by (simp add: bin_digits.simps)
next
  case (Suc k)
  then have half: "n div 2 < 2 ^ k" by auto
  show ?case
  proof (cases "n < 2")
    case True
    then have "n = 0 \<or> n = 1" by auto
    then have "count_list (bin_digits n) CHR ''1'' = (if odd n then 1 else 0)"
      using True by (subst bin_digits.simps) auto
    moreover have "n div 2 = 0" using True by simp
    ultimately show ?thesis by (simp del: upt_Suc add: filter_bit_Suc)
  next
    case False
    have "n mod 2 = 0 \<or> n mod 2 = 1" by auto
    then have "count_list [''01'' ! (n mod 2)] CHR ''1'' = (if odd n then 1 else 0)"
      by (auto simp: odd_iff_mod_2_eq_one)
    then have "count_list (bin_digits n) CHR ''1'' =
          count_list (bin_digits (n div 2)) CHR ''1'' + (if odd n then 1 else 0)"
      using False by (subst bin_digits.simps) simp
    with Suc.IH [OF half] show ?thesis by (simp del: upt_Suc add: filter_bit_Suc)
  qed
qed

lemma count_ones_bin: "count_list (bin (int (unat (x::byte)))) CHR ''1'' = set_bits x"
proof -
  have "unat x < 2 ^ 8" using unsigned_less [of x] by simp
  from count_ones_bin_digits [OF this]
  have "count_list (bin_digits (unat x)) CHR ''1'' = length (filter (bit (unat x)) [0 ..< 8])" .
  also have "filter (bit (unat x)) [0 ..< 8] = filter (bit x) [0 ..< 8]"
    by (rule filter_cong) (simp_all add: bit_unsigned_iff)
  finally show ?thesis by (simp add: bin_def set_bits_def)
qed

lemma count_ones_bin_uint: "count_list (bin (uint (x::byte))) CHR ''1'' = set_bits x"
  using count_ones_bin [of x] by simp

lemma netmask_octets:
  "mapM (\<lambda>x. py_int x 10) (split_on CHR ''.'' (dotted (a, b, c, d))) =
     Return [int (unat a), int (unat b), int (unat c), int (unat d)]"
  by (simp add: split_on_dotted py_int_str_nat)

lemma netmask_count:
  "sum_list (map (\<lambda>n. int (count_list (bin n) CHR ''1''))
       [int (unat a), int (unat b), int (unat c), int (unat d)]) = int (mask_bits (a, b, c, d))"
  by (simp add: count_ones_bin_uint mask_bits_def)









lemma dotted_samples:
  "dotted (255, 255, 255, 0) = ''255.255.255.0''" "dotted (255, 0, 255, 0) = ''255.0.255.0''"
  by code_simp+

lemma mask_bits_samples:
  "mask_bits (255, 255, 255, 0) = 24" "mask_bits (255, 0, 255, 0) = 16"
  by code_simp+




lemma digit_value_comma: "digit_value CHR '','' = 37" by (simp add: digit_value_def)

lemma comma_not_in_le_hex: "CHR '','' \<notin> set (le_hex ip)"
proof
  assume c: "CHR '','' \<in> set (le_hex ip)"
  obtain a b c d where ip: "ip = (a, b, c, d)" by (cases ip) auto
  from c have "digit_value CHR '','' < 16" using hex2_digits by (auto simp: ip le_hex_def)
  then show False by (simp add: digit_value_comma)
qed

lemma split_once_label:
  assumes "sep \<notin> set label"
  shows "split_once sep (label @ sep # payload) = [label, payload]"
proof -
  have "takeWhile (\<lambda>c. c \<noteq> sep) (label @ sep # payload) = label"
    using assms by (induction label) auto
  moreover have "dropWhile (\<lambda>c. c \<noteq> sep) (label @ sep # payload) = sep # payload"
    using assms by (induction label) auto
  ultimately show ?thesis by (simp add: split_once_def)
qed

lemma split_on_six:
  "split_on CHR '','' (le_hex a1 @ CHR '','' # le_hex a2 @ CHR '','' # le_hex a3 @ CHR '','' #
       le_hex a4 @ CHR '','' # le_hex a5 @ CHR '','' # le_hex a6 @ CHR '','' # rest) =
   le_hex a1 # le_hex a2 # le_hex a3 # le_hex a4 # le_hex a5 # le_hex a6 # split_on CHR '','' rest"
  by (simp add: split_on_def split_from_sep comma_not_in_le_hex)

lemma upt_6: "[0 ..< 6] = [0, 1, 2, 3, 4, 5]"
  by code_simp

lemma mapM_six:
  "mapM (\<lambda>i. decode_field ((le_hex a1 # le_hex a2 # le_hex a3 # le_hex a4 # le_hex a5 #
                              le_hex a6 # extra) ! i)) [0 ..< 6] =
     Return [dotted a1, dotted a2, dotted a3, dotted a4, dotted a5, dotted a6]"
  by (simp add: upt_6 decode_field_le_hex)

lemma bind_netmask_octets:
  "bind (mapM (\<lambda>x. py_int x 10) (split_on CHR ''.'' (dotted ip))) g = g (octet_values ip)"
proof -
  obtain a b c d where ip: "ip = (a, b, c, d)" by (cases ip) auto
  show ?thesis unfolding ip netmask_octets octet_values_def by simp
qed

lemma sum_octet_values:
  "sum_list (map (\<lambda>n. int (count_list (bin n) CHR ''1'')) (octet_values ip)) = int (mask_bits ip)"
proof -
  obtain a b c d where ip: "ip = (a, b, c, d)" by (cases ip) auto
  show ?thesis unfolding ip octet_values_def prod.case by (rule netmask_count)
qed

text \<open>
  C7. Round trip and field order: the decoding of the lease parser maps the encoding
  \<open>le_hex\<close> of every address back to its dotted-decimal text, and a line whose first six
  fields are such encodings parses to a lease holding the six addresses in the order
  address, netmask, gateway, DHCP server, primary DNS, secondary DNS.
\<close>

theorem lease_fields_round_trip:
  assumes label: "CHR '':'' \<notin> set label"
    and rest: "split_on CHR '','' rest = rx # f7 # extra"
    and toks: "split_ws f7 = tx # toks"
  shows "decode_field (le_hex ip) = Return (dotted ip) \<and>
         DhcpParse (label @ '':'' @ le_hex a1 @ '','' @ le_hex a2 @ '','' @ le_hex a3 @ '','' @
                    le_hex a4 @ '','' @ le_hex a5 @ '','' @ le_hex a6 @ '','' @ rest) =
           Return (Some \<lparr>IpAddr = dotted a1, Netmask = dotted a2, Gateway = dotted a3,
                          DhcpServer = dotted a4, DnsPrimary = dotted a5,
                          DnsSecondary = dotted a6, RxMaxBps = rx, TxMaxBps = tx,
                          NetmaskBits = int (mask_bits a2)\<rparr>)"
proof
  show "decode_field (le_hex ip) = Return (dotted ip)" by (rule decode_field_le_hex)
next
  define payload where "payload = le_hex a1 @ CHR '','' # le_hex a2 @ CHR '','' # le_hex a3 @ CHR '','' #
       le_hex a4 @ CHR '','' # le_hex a5 @ CHR '','' # le_hex a6 @ CHR '','' # rest"
  define fa where "fa = le_hex a1 # le_hex a2 # le_hex a3 # le_hex a4 # le_hex a5 # le_hex a6 # rx # f7 # extra"
  have raw: "label @ '':'' @ le_hex a1 @ '','' @ le_hex a2 @ '','' @ le_hex a3 @ '','' @
                    le_hex a4 @ '','' @ le_hex a5 @ '','' @ le_hex a6 @ '','' @ rest = label @ CHR '':'' # payload"
    by (simp add: payload_def)
  have so: "split_once CHR '':'' (label @ CHR '':'' # payload) = [label, payload]"
    using label by (rule split_once_label)
  have f: "split_on CHR '','' payload = fa"
    unfolding payload_def fa_def split_on_six rest ..
  have len: "8 \<le> length fa" by (simp add: fa_def)
  have m6: "mapM (\<lambda>i. decode_field (fa ! i)) [0 ..< 6] =
     Return [dotted a1, dotted a2, dotted a3, dotted a4, dotted a5, dotted a6]"
    unfolding fa_def by (rule mapM_six)
  have n6: "fa ! 6 = rx" and n7: "fa ! 7 = f7" by (simp_all add: fa_def)
  show "DhcpParse (label @ '':'' @ le_hex a1 @ '','' @ le_hex a2 @ '','' @ le_hex a3 @ '','' @
                    le_hex a4 @ '','' @ le_hex a5 @ '','' @ le_hex a6 @ '','' @ rest) =
           Return (Some \<lparr>IpAddr = dotted a1, Netmask = dotted a2, Gateway = dotted a3,
                          DhcpServer = dotted a4, DnsPrimary = dotted a5,
                          DnsSecondary = dotted a6, RxMaxBps = rx, TxMaxBps = tx,
                          NetmaskBits = int (mask_bits a2)\<rparr>)"
    unfolding raw DhcpParse_def Let_def so
    by (simp add: f len m6 n6 n7 toks bind_netmask_octets sum_octet_values)
qed

lemma sample_encodings:
  "le_hex (10, 0, 0, 1) = ''0100000A''" "le_hex (255, 255, 255, 0) = ''00FFFFFF''"
  "le_hex (10, 0, 0, 2) = ''0200000A''" "le_hex (8, 8, 8, 8) = ''08080808''"
  "le_hex (8, 8, 4, 4) = ''04040808''"
  by code_simp+

lemma sample_addresses:
  "dotted (10, 0, 0, 1) = ''10.0.0.1''" "dotted (10, 0, 0, 2) = ''10.0.0.2''"
  "dotted (8, 8, 8, 8) = ''8.8.8.8''" "dotted (8, 8, 4, 4) = ''8.8.4.4''"
  by code_simp+

theorem lease_fields_round_trip_witness:
  "decode_field ''0100000A'' = Return ''10.0.0.1'' \<and>
   DhcpParse sample_lease_reply = Return (Some sample_lease)"
proof -
  have label: "CHR '':'' \<notin> set ''^DHCP''" by simp
  have rest: "split_on CHR '','' ''43200000,43200000 OK'' = ''43200000'' # ''43200000 OK'' # []"
    by code_simp
  have toks: "split_ws ''43200000 OK'' = ''43200000'' # [''OK'']" by code_simp
  from lease_fields_round_trip [OF label rest toks, of "(10, 0, 0, 1)" "(10, 0, 0, 1)" "(255, 255, 255, 0)"
      "(10, 0, 0, 2)" "(10, 0, 0, 2)" "(8, 8, 8, 8)" "(8, 8, 4, 4)"]
  show ?thesis
    by (simp add: sample_encodings sample_addresses dotted_samples mask_bits_samples
          sample_lease_reply_def sample_lease_def)
qed

text \<open>
  C1. \<open>DhcpParse\<close> is not total: a field that is not hexadecimal raises \<open>ValueError\<close>, a
  value above 32 bits raises \<open>struct.error\<close>, and an eighth field of whitespace raises
  \<open>IndexError\<close>. The specification asks for "no lease" on each of these.
\<close>

theorem DhcpParse_raises_on_malformed_fields:
  "DhcpParse ''^DHCP:zz,0,0,0,0,0,0,0'' = Raise ValueError \<and>
   DhcpParse ''^DHCP:100000000,0,0,0,0,0,0,0'' = Raise StructError \<and>
   DhcpParse ''^DHCP:0,0,0,0,0,0,0, '' = Raise IndexError"
  by code_simp

section \<open>Properties of the main program\<close>

lemma rejecting_world_run:
  "(case connect_flow 0 rejecting_world of
      (r, w) \<Rightarrow> (r, wire (line w), history (os w))) =
   (Return (),
    [Write (encode_utf8 (''AT'' @ [CR])), Read 10 2,
     Write (encode_utf8 (''AT^NDISDUP=1,1,\"h2g2\"'' @ [CR])), Read 30 2,
     Write (encode_utf8 (''AT^DHCP?'' @ [CR])), Read 100 2],
    [Exec [''/sbin/ifconfig'', ''wwan0''],
     Shell ''/sbin/ip addr flush dev wwan0'',
     Shell ''/sbin/ip address add 10.0.0.1/24 dev wwan0'',
     Pipe [''/sbin/route''] [''/bin/grep'', '' wwan0$''],
     Shell ''/sbin/route delete default gw 10.0.0.7 wwan0'',
     Shell ''/sbin/ip route add default via 10.0.0.2'',
     Pipe [''/bin/echo'', ''nameserver 8.8.8.8''] [''/sbin/resolvconf'', ''-a'', ''wwan0.modem'']])"
  by code_simp

lemma rejecting_world_connect:
  "fst (ModemConnect (snd (ModemOk ((line rejecting_world)\<lparr>timeout := 2\<rparr>)))) = Return False"
  by code_simp

text \<open>
  C4, as stated, fails: the modem rejects the connect command (\<open>ModemConnect\<close> returns
  \<open>False\<close>), and the flow still sends the DHCP query, obtains a lease, and rewrites
  address, default route and resolver on a host that had seen no command.
\<close>

theorem connect_failure_does_not_gate:
  "fst (ModemConnect (snd (ModemOk ((line rejecting_world)\<lparr>timeout := 2\<rparr>)))) = Return False \<and>
   Write (encode_utf8 (''AT^DHCP?'' @ [CR])) \<in> set (wire (line (snd (connect_flow 0 rejecting_world)))) \<and>
   history (os rejecting_world) = [] \<and>
   history (os (snd (connect_flow 0 rejecting_world))) =
     [Exec [''/sbin/ifconfig'', ''wwan0''],
      Shell ''/sbin/ip addr flush dev wwan0'',
      Shell ''/sbin/ip address add 10.0.0.1/24 dev wwan0'',
      Pipe [''/sbin/route''] [''/bin/grep'', '' wwan0$''],
      Shell ''/sbin/route delete default gw 10.0.0.7 wwan0'',
      Shell ''/sbin/ip route add default via 10.0.0.2'',
      Pipe [''/bin/echo'', ''nameserver 8.8.8.8''] [''/sbin/resolvconf'', ''-a'', ''wwan0.modem'']]"
proof -
  obtain r w where rw: "connect_flow 0 rejecting_world = (r, w)" by (cases "connect_flow 0 rejecting_world")
  have h0: "history (os rejecting_world) = []" by (simp add: rejecting_world_def fixed_host_def)
  from rejecting_world_run rw rejecting_world_connect h0 show ?thesis by simp
qed

text \<open>
  C4, amended. Neither the probe result nor the connect result gates later steps: when the
  port opens and the three exchanges return, the DHCP query has been made whatever the
  first two returned, and without a lease the host is untouched. The host changes only
  if the DHCP query produced a lease.
\<close>

theorem connect_flow_gating:
  "(OpenModem dev_at w = Some ser \<and> ModemOk ser = (Return p, ser1) \<and>
    ModemConnect ser1 = (Return c, ser2) \<and> ModemDhcpStatus ser2 = (Return status, ser3)
      \<longrightarrow> line (snd (connect_flow v w)) = ser3 \<and>
          (status = None \<longrightarrow> connect_flow v w = (Return (), w\<lparr>line := ser3\<rparr>))) \<and>
   (os (snd (connect_flow v w)) \<noteq> os w
      \<longrightarrow> (\<exists>ser ser1 ser2 ser3 p c st.
             OpenModem dev_at w = Some ser \<and> ModemOk ser = (Return p, ser1) \<and>
             ModemConnect ser1 = (Return c, ser2) \<and>
             ModemDhcpStatus ser2 = (Return (Some st), ser3)))"
  by (auto simp: connect_flow_def and_then_case split: option.splits prod.splits result.splits)

lemma leaseless_world_exchanges:
  "fst (ModemOk ((line leaseless_world)\<lparr>timeout := 2\<rparr>)) = Return True"
  "fst (ModemConnect (snd (ModemOk ((line leaseless_world)\<lparr>timeout := 2\<rparr>)))) = Return False"
  "fst (ModemDhcpStatus (snd (ModemConnect (snd (ModemOk ((line leaseless_world)\<lparr>timeout := 2\<rparr>)))))) = Return None"
  "wire (snd (ModemDhcpStatus (snd (ModemConnect (snd (ModemOk ((line leaseless_world)\<lparr>timeout := 2\<rparr>))))))) =
    [Write (encode_utf8 (''AT'' @ [CR])), Read 10 2,
     Write (encode_utf8 (''AT^NDISDUP=1,1,\"h2g2\"'' @ [CR])), Read 30 2,
     Write (encode_utf8 (''AT^DHCP?'' @ [CR])), Read 100 2]"
  by code_simp+

theorem connect_flow_gating_witness:
  "wire (line (snd (connect_flow 0 leaseless_world))) =
     [Write (encode_utf8 (''AT'' @ [CR])), Read 10 2,
      Write (encode_utf8 (''AT^NDISDUP=1,1,\"h2g2\"'' @ [CR])), Read 30 2,
      Write (encode_utf8 (''AT^DHCP?'' @ [CR])), Read 100 2] \<and>
   os (snd (connect_flow 0 leaseless_world)) = os leaseless_world \<and>
   os (snd (connect_flow 0 rejecting_world)) \<noteq> os rejecting_world \<and>
   (\<exists>ser ser1 ser2 ser3 p c st.
       OpenModem dev_at rejecting_world = Some ser \<and> ModemOk ser = (Return p, ser1) \<and>
       ModemConnect ser1 = (Return c, ser2) \<and>
       ModemDhcpStatus ser2 = (Return (Some st), ser3))"
proof -
  define s0 where "s0 = (line leaseless_world)\<lparr>timeout := 2\<rparr>"
  define s1 where "s1 = snd (ModemOk s0)"
  define s2 where "s2 = snd (ModemConnect s1)"
  define s3 where "s3 = snd (ModemDhcpStatus s2)"
  have o: "OpenModem dev_at leaseless_world = Some s0"
    by (simp add: OpenModem_def leaseless_world_def s0_def)
  have a: "ModemOk s0 = (Return True, s1)"
    using leaseless_world_exchanges(1) unfolding s1_def s0_def by (metis prod.collapse)
  have b: "ModemConnect s1 = (Return False, s2)"
    using leaseless_world_exchanges(2) unfolding s2_def s1_def s0_def by (metis prod.collapse)
  have c: "ModemDhcpStatus s2 = (Return None, s3)"
    using leaseless_world_exchanges(3) unfolding s3_def s2_def s1_def s0_def by (metis prod.collapse)
  have w3: "wire s3 = [Write (encode_utf8 (''AT'' @ [CR])), Read 10 2,
      Write (encode_utf8 (''AT^NDISDUP=1,1,\"h2g2\"'' @ [CR])), Read 30 2,
      Write (encode_utf8 (''AT^DHCP?'' @ [CR])), Read 100 2]"
    using leaseless_world_exchanges(4) unfolding s3_def s2_def s1_def s0_def .
  from connect_flow_gating [of leaseless_world s0 True s1 False s2 None s3 0] o a b c
  have run: "connect_flow 0 leaseless_world = (Return (), leaseless_world\<lparr>line := s3\<rparr>)"
    by blast
  obtain r w where rw: "connect_flow 0 rejecting_world = (r, w)"
    by (cases "connect_flow 0 rejecting_world")
  have "history (os rejecting_world) = []" by (simp add: rejecting_world_def fixed_host_def)
  moreover have "history (os (snd (connect_flow 0 rejecting_world))) \<noteq> []"
    using rejecting_world_run rw by simp
  ultimately have changed: "os (snd (connect_flow 0 rejecting_world)) \<noteq> os rejecting_world"
    by metis
  from connect_flow_gating [of rejecting_world _ _ _ _ _ _ _ 0] changed
  have "\<exists>ser ser1 ser2 ser3 p c st.
       OpenModem dev_at rejecting_world = Some ser \<and> ModemOk ser = (Return p, ser1) \<and>
       ModemConnect ser1 = (Return c, ser2) \<and>
       ModemDhcpStatus ser2 = (Return (Some st), ser3)"
    by blast
  with run w3 changed show ?thesis by simp
qed

text \<open>
  C9. The teardown is skipped when the hangup exchange raises: with a silent modem
  (empty first read) \<open>ModemHangup\<close> raises \<open>UnboundLocalError\<close>, and with a port that
  cannot be opened \<open>ModemHangup(None)\<close> raises \<open>AttributeError\<close>; in both runs the host
  is left untouched, no flush, no route removal, no resolver update.
\<close>

theorem disconnect_flow_skips_teardown_when_hangup_raises:
  "disconnect_flow v (w\<lparr>openable := (\<lambda>d. True),
                        line := (line w)\<lparr>rxbuf := [], arrivals := []\<rparr>\<rparr>) =
     (Raise UnboundLocalError,
      w\<lparr>openable := (\<lambda>d. True),
        line := (line w)\<lparr>timeout := 2, rxbuf := [], arrivals := [],
                  wire := wire (line w) @ [Write (encode_utf8 (''AT^NDISDUP=1,0'' @ [CR])),
                                           Read 20 2]\<rparr>\<rparr>) \<and>
   disconnect_flow v (w\<lparr>openable := (\<lambda>d. False)\<rparr>) =
     (Raise AttributeError, w\<lparr>openable := (\<lambda>d. False)\<rparr>)"
  by (simp add: disconnect_flow_def OpenModem_def ModemHangup_def ser_read_def ser_write_def
        Let_def decode_if_read_def load_local_def)

text \<open>When \<open>ModemHangup\<close> returns, with \<open>True\<close> or with \<open>False\<close>, and the route query
  decodes, the whole teardown runs: the interface query (and the flush when the interface
  exists), the route query, the route removal when a default route is listed, and the
  resolver removal.\<close>

lemma disconnect_flow_teardown:
  assumes "OpenModem dev_at w = Some ser" and "ModemHangup ser = (Return ok, ser1)"
    and "GetGatewayInfo v dev (snd (EraseInterfaceIpAddress dev (os w))) = (Return g, h3)"
  shows "disconnect_flow v w =
     (Return (),
      w\<lparr>line := ser1,
        os := snd (RmDns dev (case g of None \<Rightarrow> h3
                              | Some cur \<Rightarrow> snd (RemoveGateway (GwIpAddr cur) dev h3)))\<rparr>)"
  using assms
  by (auto simp: disconnect_flow_def EraseInterfaceIpAddress_def RemoveGateway_def RmDns_def
           split: prod.splits option.splits)

lemma garbled_world_run:
  "fst (main \<lparr>connect = 1, disconnect = 0, verbosity = 0\<rparr> garbled_world) = Raise ValueError"
  "history (os (snd (main \<lparr>connect = 1, disconnect = 0, verbosity = 0\<rparr> garbled_world))) = []"
  by code_simp+

text \<open>
  C5. The process does not always reach \<open>exit(0)\<close>: \<open>-d\<close> with a serial port that cannot
  be opened ends in an uncaught \<open>AttributeError\<close>, \<open>-c\<close> with a modem that sends
  nothing ends in an uncaught \<open>UnboundLocalError\<close>, and \<open>-c\<close> with a DHCP reply whose
  first field is not hexadecimal ends in an uncaught \<open>ValueError\<close>; the exit status is 1
  in each run.
\<close>

theorem main_aborts_with_status_1:
  "exit_status (fst (main \<lparr>connect = 0, disconnect = 1, verbosity = n\<rparr>
                          (w\<lparr>openable := (\<lambda>d. False)\<rparr>))) = Some 1 \<and>
   exit_status (fst (main \<lparr>connect = 1, disconnect = 0, verbosity = n\<rparr>
                          (w\<lparr>openable := (\<lambda>d. True),
                             line := (line w)\<lparr>rxbuf := [], arrivals := []\<rparr>\<rparr>))) = Some 1 \<and>
   exit_status (fst (main \<lparr>connect = 1, disconnect = 0, verbosity = 0\<rparr> garbled_world)) = Some 1"
proof (intro conjI)
  show "exit_status (fst (main \<lparr>connect = 0, disconnect = 1, verbosity = n\<rparr>
                          (w\<lparr>openable := (\<lambda>d. False)\<rparr>))) = Some 1"
    by (simp add: main_def exit_status_def disconnect_flow_def OpenModem_def)
  show "exit_status (fst (main \<lparr>connect = 1, disconnect = 0, verbosity = n\<rparr>
                          (w\<lparr>openable := (\<lambda>d. True),
                             line := (line w)\<lparr>rxbuf := [], arrivals := []\<rparr>\<rparr>))) = Some 1"
    by (simp add: main_def exit_status_def connect_flow_def OpenModem_def ModemOk_def
          ser_read_def ser_write_def Let_def decode_if_read_def load_local_def)
  show "exit_status (fst (main \<lparr>connect = 1, disconnect = 0, verbosity = 0\<rparr> garbled_world)) = Some 1"
    by (simp only: garbled_world_run exit_status_def result.case)
qed

end
